theory Spec2Isabelle
  imports Main "HOL-Library.Sublist"
begin

section \<open>The launcher \<^verbatim>\<open>start.py\<close>\<close>

text \<open>
  The program is one function, \<^verbatim>\<open>main\<close>, that prints a banner, changes the working
  directory, starts a daemon thread that opens the browser, and runs a server loop inside
  a \<^verbatim>\<open>try\<close> with a bare \<^verbatim>\<open>except\<close>. Everything it does is a call into the operating
  system or the standard library, so the model is: each such call appends an event to the
  trace of the process, updates the part of the process state it touches, and completes
  the way the platform decides. The platform is a parameter (\<open>env\<close>).

  The file uses f-strings, so it only runs on Python 3: the first branch of the import
  block is the one taken, \<^verbatim>\<open>socketserver.TCPServer\<close> is the class of the first server and
  \<^verbatim>\<open>http.server.HTTPServer\<close> the class of the second.
\<close>

subsection \<open>Exceptions and how a statement completes\<close>

datatype exn = KeyboardInterrupt | SystemExit | OSError string | OtherException string

text \<open>
  A statement returns, raises, or never completes (\<open>Blocked\<close>: a server loop that keeps
  running). For the whole process: \<open>Returned\<close> is a normal exit, \<open>Raised e\<close> is termination
  by the unhandled exception \<open>e\<close>, \<open>Blocked\<close> is a process that keeps serving.
\<close>

datatype completion = Returned | Raised exn | Blocked

subsection \<open>Events and process state\<close>

datatype server_class = TCPServer | HTTPServer

datatype event =
    Print string
  | Chdir string
  | ThreadStart
  | Bind server_class string nat
  | ServeForever server_class nat
  | ServerClose server_class
  | Sleep nat
  | BrowserOpen string

text \<open>
  The platform: the process's arguments and script path, the two \<^verbatim>\<open>os.path\<close> functions the
  program calls, and the outcome of every call that can fail or block. Server
  constructions and server loops are numbered in the order the program makes them
  (0 for the first). \<open>serve_requests\<close> is the number of HTTP requests a loop handles,
  \<open>serve_ends\<close> how the loop ends. \<open>daemon_progress\<close> is the number of steps the daemon
  thread has completed when the process terminates, if it terminates. \<open>browser_result\<close>
  is what \<^verbatim>\<open>webbrowser.open\<close> does: it raises, or returns whether a browser was launched.
\<close>

record env =
  argv :: "string list"
  script_file :: string
  start_cwd :: string
  abspath :: "string \<Rightarrow> string"
  dirname :: "string \<Rightarrow> string"
  chdir_raises :: "string \<Rightarrow> exn option"
  thread_start_raises :: "exn option"
  bind_raises :: "nat \<Rightarrow> exn option"
  serve_requests :: "nat \<Rightarrow> nat"
  serve_ends :: "nat \<Rightarrow> completion"
  daemon_progress :: nat
  browser_result :: "exn + bool"

text \<open>
  The state of the process: its working directory, the listening sockets it holds, the
  daemon threads it has started (each as the events its target performs and how the
  target completes), and the calls the main thread has made so far.
\<close>

record proc =
  cwd :: string
  listening :: "(server_class \<times> string \<times> nat) list"
  daemons :: "(event list \<times> completion) list"
  trace :: "event list"

type_synonym stmt = "proc \<Rightarrow> completion \<times> proc"

definition emit :: "event \<Rightarrow> proc \<Rightarrow> proc" where
  "emit ev s = s\<lparr>trace := trace s @ [ev]\<rparr>"

subsection \<open>Control flow\<close>

text \<open>A block runs its statements in order and stops at the first that does not return.\<close>

fun block :: "stmt list \<Rightarrow> stmt" where
  "block [] s = (Returned, s)"
| "block (f # fs) s =
     (case f s of
        (Returned, s') \<Rightarrow> block fs s'
      | (c, s') \<Rightarrow> (c, s'))"

text \<open>
  \<^verbatim>\<open>try: body except: handler\<close> with a bare \<^verbatim>\<open>except\<close>: every exception of the body,
  whatever its class, runs the handler.
\<close>

definition try_except :: "stmt \<Rightarrow> stmt \<Rightarrow> stmt" where
  "try_except body handler s =
     (case body s of
        (Raised e, s') \<Rightarrow> handler s'
      | (c, s') \<Rightarrow> (c, s'))"

subsection \<open>The calls the program makes\<close>

text \<open>
  The calls that can fail on a platform (\<^verbatim>\<open>os.chdir\<close>, the start of a thread, the
  construction of a server, the server loop, \<^verbatim>\<open>webbrowser.open\<close>) complete as the
  platform says; \<^verbatim>\<open>print\<close>, \<^verbatim>\<open>time.sleep\<close> and the closing of a server are taken to
  return.
\<close>

definition print :: "string \<Rightarrow> stmt" where
  "print line s = (Returned, emit (Print line) s)"

definition os_chdir :: "env \<Rightarrow> string \<Rightarrow> stmt" where
  "os_chdir env dir s =
     (case chdir_raises env dir of
        Some e \<Rightarrow> (Raised e, emit (Chdir dir) s)
      | None \<Rightarrow> (Returned, emit (Chdir dir) (s\<lparr>cwd := dir\<rparr>)))"

text \<open>
  \<^verbatim>\<open>threading.Thread(target=...)\<close>, \<^verbatim>\<open>daemon = True\<close>, \<^verbatim>\<open>start()\<close>: the thread is recorded
  with its target; nothing waits for it.
\<close>

definition thread_start :: "env \<Rightarrow> event list \<times> completion \<Rightarrow> stmt" where
  "thread_start env target s =
     (case thread_start_raises env of
        Some e \<Rightarrow> (Raised e, emit ThreadStart s)
      | None \<Rightarrow> (Returned, emit ThreadStart (s\<lparr>daemons := daemons s @ [target]\<rparr>)))"

text \<open>Constructing a server binds and listens on the address; a failure raises.\<close>

definition server_init :: "env \<Rightarrow> nat \<Rightarrow> server_class \<Rightarrow> string \<times> nat \<Rightarrow> stmt" where
  "server_init env k cls addr s =
     (case bind_raises env k of
        Some e \<Rightarrow> (Raised e, emit (Bind cls (fst addr) (snd addr)) s)
      | None \<Rightarrow>
          (Returned,
           emit (Bind cls (fst addr) (snd addr))
             (s\<lparr>listening := listening s @ [(cls, addr)]\<rparr>)))"

definition serve_forever :: "env \<Rightarrow> nat \<Rightarrow> server_class \<Rightarrow> stmt" where
  "serve_forever env k cls s =
     (serve_ends env k, emit (ServeForever cls (serve_requests env k)) s)"

definition server_close :: "server_class \<Rightarrow> proc \<Rightarrow> proc" where
  "server_close cls s =
     emit (ServerClose cls) (s\<lparr>listening := filter (\<lambda>l. fst l \<noteq> cls) (listening s)\<rparr>)"

text \<open>
  \<^verbatim>\<open>with Server(addr, handler) as httpd: body\<close>: when the construction raises, the body
  does not run; otherwise the server is closed when the body returns or raises, and the
  body's completion is the statement's. A body that never completes never reaches the
  close.
\<close>

definition with_server :: "env \<Rightarrow> nat \<Rightarrow> server_class \<Rightarrow> string \<times> nat \<Rightarrow> stmt \<Rightarrow> stmt" where
  "with_server env k cls addr body s =
     (case server_init env k cls addr s of
        (Returned, s1) \<Rightarrow>
          (case body s1 of
             (Blocked, s2) \<Rightarrow> (Blocked, s2)
           | (c, s2) \<Rightarrow> (c, server_close cls s2))
      | (c, s1) \<Rightarrow> (c, s1))"

subsection \<open>String formatting\<close>

text \<open>The decimal form of a non-negative integer, as an f-string field prints it.\<close>

fun str :: "nat \<Rightarrow> string" where
  "str n =
     (if n < 10 then [''0123456789'' ! n]
      else str (n div 10) @ [''0123456789'' ! (n mod 10)])"

declare str.simps [simp del]

subsection \<open>The program\<close>

text \<open>
  \<^verbatim>\<open>open_browser\<close>, the target of the daemon thread: it sleeps one second and calls
  \<^verbatim>\<open>webbrowser.open\<close>; the value returned is dropped, an exception ends the thread.
\<close>

definition open_browser :: "env \<Rightarrow> nat \<Rightarrow> event list \<times> completion" where
  "open_browser env port =
     ([Sleep 1, BrowserOpen (''http://localhost:'' @ str port)],
      (case browser_result env of Inl e \<Rightarrow> Raised e | Inr opened \<Rightarrow> Returned))"

definition main :: "env \<Rightarrow> stmt" where
  "main env =
     (let port = 8080 in
      block
        [print '''',
         print (replicate 40 CHR ''=''),
         print ''     OnlyWorlds Tool Template'',
         print (replicate 40 CHR ''=''),
         print '''',
         print (''Starting server at http://localhost:'' @ str port),
         print ''Press Ctrl+C to stop'',
         print '''',
         os_chdir env (dirname env (abspath env (script_file env))),
         thread_start env (open_browser env port),
         try_except
           (with_server env 0 TCPServer ('''', port) (serve_forever env 0 TCPServer))
           (block
              [server_init env 1 HTTPServer ('''', port),
               serve_forever env 1 HTTPServer])])"

subsection \<open>A launch of the program\<close>

text \<open>
  A daemon thread runs its target to the end when the process keeps running. When the
  process terminates, the thread is stopped where it is: it has performed the first
  \<open>daemon_progress\<close> events of its target, and has a completion only if that is all of
  them.
\<close>

definition daemon_run ::
  "env \<Rightarrow> completion \<Rightarrow> event list \<times> completion \<Rightarrow> event list \<times> completion option" where
  "daemon_run env c target =
     (if c = Blocked \<or> length (fst target) \<le> daemon_progress env
      then (fst target, Some (snd target))
      else (take (daemon_progress env) (fst target), None))"

record run =
  outcome :: completion
  final :: proc
  background :: "(event list \<times> completion option) list"

definition initial :: "env \<Rightarrow> proc" where
  "initial env = \<lparr>cwd = start_cwd env, listening = [], daemons = [], trace = []\<rparr>"

text \<open>Running the file as a script calls \<^verbatim>\<open>main()\<close> with no arguments.\<close>

definition launch :: "env \<Rightarrow> run" where
  "launch env =
     (case main env (initial env) of
        (c, s) \<Rightarrow>
          \<lparr>outcome = c, final = s, background = map (daemon_run env c) (daemons s)\<rparr>)"

subsection \<open>Observations on a run\<close>

definition main_trace :: "env \<Rightarrow> event list" where
  "main_trace env = trace (final (launch env))"

definition background_trace :: "env \<Rightarrow> event list" where
  "background_trace env = concat (map fst (background (launch env)))"

fun is_bind :: "event \<Rightarrow> bool" where
  "is_bind (Bind cls host port) = True"
| "is_bind ev = False"

fun is_serve :: "event \<Rightarrow> bool" where
  "is_serve (ServeForever cls n) = True"
| "is_serve ev = False"

fun is_chdir :: "event \<Rightarrow> bool" where
  "is_chdir (Chdir d) = True"
| "is_chdir ev = False"

fun is_browser_open :: "event \<Rightarrow> bool" where
  "is_browser_open (BrowserOpen u) = True"
| "is_browser_open ev = False"

fun is_print :: "event \<Rightarrow> bool" where
  "is_print (Print l) = True"
| "is_print ev = False"

text \<open>The number of browser-open calls of a launch, over both threads.\<close>

definition browser_opens :: "env \<Rightarrow> nat" where
  "browser_opens env = length (filter is_browser_open (main_trace env @ background_trace env))"

text \<open>The events of one server class, and the address of a bind.\<close>

fun of_class :: "server_class \<Rightarrow> event \<Rightarrow> bool" where
  "of_class c (Bind cls host port) = (cls = c)"
| "of_class c (ServeForever cls n) = (cls = c)"
| "of_class c (ServerClose cls) = (cls = c)"
| "of_class c ev = False"

fun bind_addr :: "event \<Rightarrow> (string \<times> nat) option" where
  "bind_addr (Bind cls host port) = Some (host, port)"
| "bind_addr ev = None"

text \<open>
  The three steps of the launcher's control flow, read off the trace: the change of
  directory, the start of the browser thread, and the blocking call of a server loop.
\<close>

datatype step = ChangeDir | SpawnBrowser | RunServer

fun step_of :: "event \<Rightarrow> step option" where
  "step_of (Chdir d) = Some ChangeDir"
| "step_of ThreadStart = Some SpawnBrowser"
| "step_of (ServeForever cls n) = Some RunServer"
| "step_of ev = None"

subsection \<open>Names for parts of \<open>main\<close>\<close>

text \<open>The argument of \<^verbatim>\<open>os.chdir\<close>: \<^verbatim>\<open>os.path.dirname(os.path.abspath(__file__))\<close>.\<close>

definition script_dir :: "env \<Rightarrow> string" where
  "script_dir env = dirname env (abspath env (script_file env))"

text \<open>The eight lines \<open>main\<close> prints first, with the port formatted.\<close>

definition banner :: "event list" where
  "banner =
     [Print '''',
      Print (replicate 40 CHR ''=''),
      Print ''     OnlyWorlds Tool Template'',
      Print (replicate 40 CHR ''=''),
      Print '''',
      Print ''Starting server at http://localhost:8080'',
      Print ''Press Ctrl+C to stop'',
      Print '''']"

text \<open>The \<^verbatim>\<open>try\<close> statement that ends \<open>main\<close>.\<close>

definition start_server :: "env \<Rightarrow> nat \<Rightarrow> stmt" where
  "start_server env port =
     try_except
       (with_server env 0 TCPServer ('''', port) (serve_forever env 0 TCPServer))
       (block
          [server_init env 1 HTTPServer ('''', port),
           serve_forever env 1 HTTPServer])"

text \<open>The launches in which \<open>main\<close> gets as far as that statement.\<close>

definition reaches_server :: "env \<Rightarrow> bool" where
  "reaches_server env =
     (chdir_raises env (script_dir env) = None \<and> thread_start_raises env = None)"

subsection \<open>Example platforms\<close>

text \<open>\<^verbatim>\<open>posixpath.dirname\<close>: the path up to its last slash, trailing slashes removed
  unless it consists of slashes only.\<close>

definition posix_dirname :: "string \<Rightarrow> string" where
  "posix_dirname p =
     (let head = rev (dropWhile (\<lambda>c. c \<noteq> CHR ''/'') (rev p)) in
      if head \<noteq> [] \<and> \<not> list_all (\<lambda>c. c = CHR ''/'') head
      then rev (dropWhile (\<lambda>c. c = CHR ''/'') (rev head))
      else head)"

text \<open>
  A host where every call succeeds: the port is free, each loop handles three requests
  and keeps running, a browser opens.
\<close>

definition linux_host :: env where
  "linux_host =
     \<lparr>argv = [],
      script_file = ''/srv/tool/start.py'',
      start_cwd = ''/home/dev'',
      abspath = (\<lambda>p. if take 1 p = ''/'' then p else ''/home/dev/'' @ p),
      dirname = posix_dirname,
      chdir_raises = (\<lambda>d. None),
      thread_start_raises = None,
      bind_raises = (\<lambda>k. None),
      serve_requests = (\<lambda>k. 3),
      serve_ends = (\<lambda>k. Blocked),
      daemon_progress = 0,
      browser_result = Inr True\<rparr>"

text \<open>The same host, where Ctrl+C reaches the first server loop.\<close>

definition interrupted_host :: env where
  "interrupted_host =
     linux_host\<lparr>serve_ends := (\<lambda>k. if k = 0 then Raised KeyboardInterrupt else Blocked)\<rparr>"

text \<open>
  The same host with port 8080 held by another process for as long as the launcher
  lives: every bind fails, and the process is gone while the daemon thread still sleeps.
\<close>

definition busy_port_host :: env where
  "busy_port_host =
     linux_host\<lparr>bind_raises := (\<lambda>k. Some (OSError ''[Errno 98] Address already in use'')),
       daemon_progress := 1\<rparr>"

section \<open>The runs of \<open>main\<close>\<close>

lemma str_8080: "str 8080 = ''8080''"
  by (simp add: str.simps)

lemmas call_defs = print_def os_chdir_def thread_start_def server_init_def serve_forever_def
  server_close_def with_server_def try_except_def emit_def

lemma main_chdir_fails:
  assumes "chdir_raises env (script_dir env) = Some e"
  shows "main env (initial env) =
    (Raised e, \<lparr>cwd = start_cwd env, listening = [], daemons = [],
       trace = banner @ [Chdir (script_dir env)]\<rparr>)"
  using assms
  by (simp add: main_def initial_def call_defs script_dir_def banner_def str_8080)

lemma main_thread_fails:
  assumes "chdir_raises env (script_dir env) = None" "thread_start_raises env = Some e"
  shows "main env (initial env) =
    (Raised e, \<lparr>cwd = script_dir env, listening = [], daemons = [],
       trace = banner @ [Chdir (script_dir env), ThreadStart]\<rparr>)"
  using assms
  by (simp add: main_def initial_def call_defs script_dir_def banner_def str_8080)

lemma main_reaches_server:
  assumes "chdir_raises env (script_dir env) = None" "thread_start_raises env = None"
  shows "main env (initial env) =
    start_server env 8080 \<lparr>cwd = script_dir env, listening = [],
       daemons = [open_browser env 8080],
       trace = banner @ [Chdir (script_dir env), ThreadStart]\<rparr>"
  using assms
  by (simp add: main_def initial_def print_def os_chdir_def thread_start_def emit_def
      script_dir_def banner_def str_8080 start_server_def
      split: prod.splits completion.splits)

lemma main_run:
  "main env (initial env) =
    (case chdir_raises env (script_dir env) of
       Some e \<Rightarrow>
         (Raised e, \<lparr>cwd = start_cwd env, listening = [], daemons = [],
            trace = banner @ [Chdir (script_dir env)]\<rparr>)
     | None \<Rightarrow>
         (case thread_start_raises env of
            Some e \<Rightarrow>
              (Raised e, \<lparr>cwd = script_dir env, listening = [], daemons = [],
                 trace = banner @ [Chdir (script_dir env), ThreadStart]\<rparr>)
          | None \<Rightarrow>
              start_server env 8080 \<lparr>cwd = script_dir env, listening = [],
                daemons = [open_browser env 8080],
                trace = banner @ [Chdir (script_dir env), ThreadStart]\<rparr>))"
  by (simp add: main_chdir_fails main_thread_fails main_reaches_server
      split: option.splits)

text \<open>The \<^verbatim>\<open>try\<close> statement, case by case.\<close>

lemma start_server_table:
  "start_server env port s =
    (case bind_raises env 0 of
       None \<Rightarrow>
         (case serve_ends env 0 of
            Blocked \<Rightarrow>
              (Blocked, s\<lparr>listening := listening s @ [(TCPServer, '''', port)],
                 trace := trace s @
                   [Bind TCPServer '''' port, ServeForever TCPServer (serve_requests env 0)]\<rparr>)
          | Returned \<Rightarrow>
              (Returned, s\<lparr>listening := filter (\<lambda>l. fst l \<noteq> TCPServer) (listening s),
                 trace := trace s @
                   [Bind TCPServer '''' port, ServeForever TCPServer (serve_requests env 0),
                    ServerClose TCPServer]\<rparr>)
          | Raised e \<Rightarrow>
              (case bind_raises env 1 of
                 Some e2 \<Rightarrow>
                   (Raised e2, s\<lparr>listening := filter (\<lambda>l. fst l \<noteq> TCPServer) (listening s),
                      trace := trace s @
                        [Bind TCPServer '''' port, ServeForever TCPServer (serve_requests env 0),
                         ServerClose TCPServer, Bind HTTPServer '''' port]\<rparr>)
               | None \<Rightarrow>
                   (serve_ends env 1,
                    s\<lparr>listening := filter (\<lambda>l. fst l \<noteq> TCPServer) (listening s) @
                         [(HTTPServer, '''', port)],
                      trace := trace s @
                        [Bind TCPServer '''' port, ServeForever TCPServer (serve_requests env 0),
                         ServerClose TCPServer, Bind HTTPServer '''' port,
                         ServeForever HTTPServer (serve_requests env 1)]\<rparr>)))
     | Some e \<Rightarrow>
         (case bind_raises env 1 of
            Some e2 \<Rightarrow>
              (Raised e2,
               s\<lparr>trace := trace s @ [Bind TCPServer '''' port, Bind HTTPServer '''' port]\<rparr>)
          | None \<Rightarrow>
              (serve_ends env 1, s\<lparr>listening := listening s @ [(HTTPServer, '''', port)],
                 trace := trace s @
                   [Bind TCPServer '''' port, Bind HTTPServer '''' port,
                    ServeForever HTTPServer (serve_requests env 1)]\<rparr>)))"
  by (simp add: start_server_def call_defs split: option.splits completion.splits)

lemmas run_simps = launch_def main_trace_def background_trace_def main_run start_server_table
  daemon_run_def open_browser_def reaches_server_def

lemma filter_banner [simp]:
  "filter is_bind banner = []" "filter is_serve banner = []"
  "filter is_chdir banner = []" "filter is_browser_open banner = []"
  "filter (of_class c) banner = []" "List.map_filter step_of banner = []"
  "List.map_filter bind_addr banner = []" "takeWhile is_print banner = banner"
  "list_ex is_serve banner = False" "length banner = 8"
  by (simp_all add: banner_def List.map_filter_simps)

lemma script_dir_linux_host: "script_dir linux_host = ''/srv/tool''"
  by (simp add: script_dir_def linux_host_def posix_dirname_def)

lemma linux_host_fields:
  "chdir_raises linux_host = (\<lambda>d. None)"
  "thread_start_raises linux_host = None"
  "bind_raises linux_host = (\<lambda>k. None)"
  "serve_requests linux_host = (\<lambda>k. 3)"
  "serve_ends linux_host = (\<lambda>k. Blocked)"
  "daemon_progress linux_host = 0"
  "start_cwd linux_host = ''/home/dev''"
  by (simp_all add: linux_host_def)

lemma interrupted_host_fields:
  "chdir_raises interrupted_host = (\<lambda>d. None)"
  "thread_start_raises interrupted_host = None"
  "bind_raises interrupted_host = (\<lambda>k. None)"
  "serve_requests interrupted_host = (\<lambda>k. 3)"
  "serve_ends interrupted_host = (\<lambda>k. if k = 0 then Raised KeyboardInterrupt else Blocked)"
  by (simp_all add: interrupted_host_def linux_host_def)

lemma script_dir_interrupted_host: "script_dir interrupted_host = ''/srv/tool''"
  by (simp add: script_dir_def interrupted_host_def linux_host_def posix_dirname_def)

lemma busy_port_host_fields:
  "chdir_raises busy_port_host = (\<lambda>d. None)"
  "thread_start_raises busy_port_host = None"
  "bind_raises busy_port_host = (\<lambda>k. Some (OSError ''[Errno 98] Address already in use''))"
  "daemon_progress busy_port_host = 1"
  by (simp_all add: busy_port_host_def linux_host_def)

lemma map_filter_append:
  "List.map_filter f (xs @ ys) = List.map_filter f xs @ List.map_filter f ys"
  by (simp add: List.map_filter_def)

lemma launch_cases [case_names chdir_fails thread_fails serving]:
  obtains e where "chdir_raises env (script_dir env) = Some e"
  | e where "chdir_raises env (script_dir env) = None" "thread_start_raises env = Some e"
  | "chdir_raises env (script_dir env) = None" "thread_start_raises env = None"
  by (cases "chdir_raises env (script_dir env)"; cases "thread_start_raises env") auto

text \<open>What the daemon thread gets to do.\<close>

lemma background_cases:
  "background_trace env =
     (if reaches_server env then
        (if outcome (launch env) = Blocked \<or> 2 \<le> daemon_progress env
         then [Sleep 1, BrowserOpen ''http://localhost:8080'']
         else take (daemon_progress env) [Sleep 1, BrowserOpen ''http://localhost:8080''])
      else [])"
  by (simp add: run_simps str_8080 split: option.splits completion.splits)

lemma background_no_bind: "List.map_filter bind_addr (background_trace env) = []"
  by (cases "daemon_progress env") (auto simp add: background_cases take_Cons')

lemma background_no_chdir: "filter is_chdir (background_trace env) = []"
  by (cases "daemon_progress env") (auto simp add: background_cases take_Cons')

lemma background_no_serve: "filter is_serve (background_trace env) = []"
  by (cases "daemon_progress env") (auto simp add: background_cases take_Cons')

lemma background_no_step: "List.map_filter step_of (background_trace env) = []"
  by (cases "daemon_progress env") (auto simp add: background_cases take_Cons')

lemma main_browser_opens: "filter is_browser_open (main_trace env) = []"
  by (simp add: main_trace_def launch_def main_run start_server_table
      split: option.splits completion.splits)

lemma browser_opens_cases:
  "browser_opens env =
     (if reaches_server env \<and> (outcome (launch env) = Blocked \<or> 2 \<le> daemon_progress env)
      then 1 else 0)"
proof -
  have "take (daemon_progress env) [Sleep 1, BrowserOpen ''http://localhost:8080''] = [] \<or>
    take (daemon_progress env) [Sleep 1, BrowserOpen ''http://localhost:8080''] = [Sleep 1]"
    if "\<not> 2 \<le> daemon_progress env"
    using that by (cases "daemon_progress env") auto
  then show ?thesis
    by (auto simp add: browser_opens_def main_browser_opens background_cases)
qed

text \<open>The fields of the platform that the main thread does not read.\<close>

lemma outcome_serve_requests:
  "outcome (launch (env\<lparr>serve_requests := r\<rparr>)) = outcome (launch env)"
  by (simp add: launch_def main_run start_server_table script_dir_def
      split: option.splits completion.splits)

lemma reaches_server_serve_requests:
  "reaches_server (env\<lparr>serve_requests := r\<rparr>) = reaches_server env"
  by (simp add: reaches_server_def script_dir_def)

lemma main_browser_result:
  "main (env\<lparr>browser_result := r\<rparr>) (initial (env\<lparr>browser_result := r\<rparr>)) =
     (fst (main env (initial env)),
      (snd (main env (initial env)))
        \<lparr>daemons := map (\<lambda>t. open_browser (env\<lparr>browser_result := r\<rparr>) 8080)
           (daemons (snd (main env (initial env))))\<rparr>)"
  by (simp add: main_run start_server_table script_dir_def
      split: option.splits completion.splits)

lemma linux_host_serves:
  "reaches_server linux_host" "outcome (launch linux_host) = Blocked"
  by (simp_all add: run_simps linux_host_fields)

section \<open>The claims\<close>

text \<open>
  C1. The claim: an interrupt in the running server loop ends the loop, releases the
  listening socket and terminates the process, and starts no further server. The banner
  the program prints says the same (\<^verbatim>\<open>Press Ctrl+C to stop\<close>). What the program does on
  the host where Ctrl+C reaches the first loop: the loop ends and its socket is closed,
  but the bare \<^verbatim>\<open>except\<close> takes the KeyboardInterrupt, a second server is bound on port
  8080 and its loop runs; the process does not terminate.
\<close>

theorem interrupt_restarts_server:
  "outcome (launch interrupted_host) = Blocked \<and>
   main_trace interrupted_host =
     banner @
     [Chdir ''/srv/tool'', ThreadStart,
      Bind TCPServer '''' 8080, ServeForever TCPServer 3, ServerClose TCPServer,
      Bind HTTPServer '''' 8080, ServeForever HTTPServer 3] \<and>
   listening (final (launch interrupted_host)) = [(HTTPServer, '''', 8080)]"
  by (simp add: run_simps script_dir_interrupted_host interrupted_host_fields)

text \<open>
  C2, as the spec states it: when the first bind fails, that is the end, with a single
  bind attempt. It fails on the host whose port is busy: the launcher binds twice.
\<close>

theorem busy_port_is_retried:
  "\<not> (bind_raises busy_port_host 0 \<noteq> None \<longrightarrow>
        filter is_bind (main_trace busy_port_host) = [Bind TCPServer '''' 8080])"
  by (simp add: run_simps busy_port_host_fields)

text \<open>
  C2, amended: when the first bind fails, the launcher makes one more bind attempt, on
  the same address (all interfaces, port 8080) and on no other; when that one fails as
  well, its exception terminates the process, no server loop has run and no socket is
  held.
\<close>

theorem bind_failure_retried_once:
  assumes "reaches_server env" and "bind_raises env 0 = Some e"
  shows "filter is_bind (main_trace env) =
      [Bind TCPServer '''' 8080, Bind HTTPServer '''' 8080] \<and>
    (\<forall>e2. bind_raises env 1 = Some e2 \<longrightarrow>
       outcome (launch env) = Raised e2 \<and> \<not> list_ex is_serve (main_trace env) \<and>
       listening (final (launch env)) = [])"
  using assms
  by (simp add: run_simps split: option.splits)

theorem bind_failure_retried_once_witness:
  "filter is_bind (main_trace busy_port_host) =
     [Bind TCPServer '''' 8080, Bind HTTPServer '''' 8080] \<and>
   outcome (launch busy_port_host) = Raised (OSError ''[Errno 98] Address already in use'') \<and>
   \<not> list_ex is_serve (main_trace busy_port_host) \<and>
   listening (final (launch busy_port_host)) = []"
proof -
  have r: "reaches_server busy_port_host"
    by (simp add: reaches_server_def busy_port_host_fields)
  have b: "bind_raises busy_port_host 0 = Some (OSError ''[Errno 98] Address already in use'')"
    "bind_raises busy_port_host 1 = Some (OSError ''[Errno 98] Address already in use'')"
    by (simp_all add: busy_port_host_fields)
  from bind_failure_retried_once [OF r b(1)] b(2) show ?thesis
    by blast
qed

text \<open>
  C3. When the first attempt raises an exception \<open>e\<close> of any class, in the bind or in the
  loop, the events of the second server class in the trace are exactly one bind on port
  8080 of all interfaces, followed by the loop when that bind succeeds; and the process
  ends the way the second attempt does: an exception raised by its bind or by its loop
  terminates the process.
\<close>

theorem fallback_after_any_exception:
  assumes "reaches_server env"
    and "bind_raises env 0 = Some e \<or> (bind_raises env 0 = None \<and> serve_ends env 0 = Raised e)"
  shows "filter (of_class HTTPServer) (main_trace env) =
      Bind HTTPServer '''' 8080 #
      (case bind_raises env 1 of
         None \<Rightarrow> [ServeForever HTTPServer (serve_requests env 1)]
       | Some e2 \<Rightarrow> []) \<and>
    outcome (launch env) =
      (case bind_raises env 1 of None \<Rightarrow> serve_ends env 1 | Some e2 \<Rightarrow> Raised e2)"
  using assms
  by (auto simp add: run_simps split: option.splits)

theorem fallback_after_any_exception_witness:
  "filter (of_class HTTPServer) (main_trace interrupted_host) =
     [Bind HTTPServer '''' 8080, ServeForever HTTPServer 3] \<and>
   outcome (launch interrupted_host) = Blocked"
proof -
  have r: "reaches_server interrupted_host"
    by (simp add: reaches_server_def interrupted_host_fields)
  have x: "bind_raises interrupted_host 0 = Some KeyboardInterrupt \<or>
    (bind_raises interrupted_host 0 = None \<and>
     serve_ends interrupted_host 0 = Raised KeyboardInterrupt)"
    by (simp add: interrupted_host_fields)
  from fallback_after_any_exception [OF r x] show ?thesis
    by (simp add: interrupted_host_fields)
qed

text \<open>
  C4. The target of the browser thread performs two calls, in this order: a sleep of one
  second, then the opening of exactly \<^verbatim>\<open>http://localhost:8080\<close>. It is the only thread
  the launcher starts; what the thread does in a launch is an initial part of these two
  calls, and both of them when the thread was started and the process outlives it.
\<close>

theorem open_browser_sleeps_then_opens:
  "fst (open_browser env 8080) = [Sleep 1, BrowserOpen ''http://localhost:8080''] \<and>
   daemons (final (launch env)) = (if reaches_server env then [open_browser env 8080] else []) \<and>
   prefix (background_trace env) [Sleep 1, BrowserOpen ''http://localhost:8080''] \<and>
   (if reaches_server env \<and> (outcome (launch env) = Blocked \<or> 2 \<le> daemon_progress env)
    then background_trace env = [Sleep 1, BrowserOpen ''http://localhost:8080'']
    else length (background_trace env) < 2)"
proof -
  have 1: "fst (open_browser env 8080) = [Sleep 1, BrowserOpen ''http://localhost:8080'']"
    by (simp add: open_browser_def str_8080)
  have 2: "daemons (final (launch env)) =
      (if reaches_server env then [open_browser env 8080] else [])"
    by (simp add: launch_def main_run start_server_table reaches_server_def
        split: option.splits completion.splits)
  have 3: "prefix (background_trace env) [Sleep 1, BrowserOpen ''http://localhost:8080'']"
    by (simp add: background_cases take_is_prefix)
  have 4: "if reaches_server env \<and> (outcome (launch env) = Blocked \<or> 2 \<le> daemon_progress env)
    then background_trace env = [Sleep 1, BrowserOpen ''http://localhost:8080'']
    else length (background_trace env) < 2"
    by (auto simp add: background_cases)
  from 1 2 3 4 show ?thesis by blast
qed

theorem open_browser_sleeps_then_opens_witness:
  "background_trace linux_host = [Sleep 1, BrowserOpen ''http://localhost:8080'']"
  using open_browser_sleeps_then_opens [of linux_host] linux_host_serves
  by simp

text \<open>
  C5, as the spec states it: every launch opens the browser exactly once. It fails on
  the host whose port is busy: both binds fail, the process terminates while the daemon
  thread still sleeps, and the browser is never opened.
\<close>

theorem busy_port_browser_never_opened: "\<not> browser_opens busy_port_host = 1"
  by (simp add: browser_opens_cases run_simps busy_port_host_fields)

text \<open>
  C5, amended: a launch opens the browser at most once, whatever the number of requests
  the server handles: once when the change of directory and the start of the thread
  succeed and the process keeps serving, or terminates only after the daemon thread has
  made its two calls; otherwise not at all.
\<close>

theorem browser_opened_at_most_once:
  "browser_opens env =
     (if reaches_server env \<and> (outcome (launch env) = Blocked \<or> 2 \<le> daemon_progress env)
      then 1 else 0) \<and>
   browser_opens (env\<lparr>serve_requests := r\<rparr>) = browser_opens env"
  by (simp add: browser_opens_cases outcome_serve_requests reaches_server_serve_requests)

theorem browser_opened_at_most_once_witness:
  "browser_opens linux_host = 1 \<and>
   browser_opens (linux_host\<lparr>serve_requests := (\<lambda>k. 1000)\<rparr>) = 1"
  using browser_opened_at_most_once [of linux_host "\<lambda>k. 1000"] linux_host_serves
  by simp

text \<open>
  C6. The first call of the main thread after the banner is the change of directory, to
  the directory of the script. When it succeeds, the next call is the start of a thread.
  When that succeeds too, the rest of the run is the server statement, started in a state
  where the working directory is the directory of the script and the one daemon thread is
  the browser task (\<^verbatim>\<open>open_browser\<close>: sleep one second, open the URL): its first call is
  the bind of the first server and, when the bind succeeds, the next is the blocking
  server loop. No server loop is called among the first ten calls, in a launch where the
  change of directory or the start of the thread failed, or by the browser thread: the
  loop runs on the main thread. In kinds of steps, every run is an initial part of:
  change of directory, start of the browser thread, server loop (and a second loop, when
  the first attempt raised).
\<close>

theorem chdir_then_thread_then_serve:
  "take 9 (main_trace env) = banner @ [Chdir (script_dir env)] \<and>
   (chdir_raises env (script_dir env) = None \<longrightarrow>
      take 10 (main_trace env) = banner @ [Chdir (script_dir env), ThreadStart]) \<and>
   (reaches_server env \<longrightarrow>
      main env (initial env) =
        start_server env 8080
          \<lparr>cwd = script_dir env, listening = [], daemons = [open_browser env 8080],
           trace = banner @ [Chdir (script_dir env), ThreadStart]\<rparr> \<and>
      cwd (final (launch env)) = script_dir env \<and>
      daemons (final (launch env)) = [open_browser env 8080] \<and>
      fst (open_browser env 8080) = [Sleep 1, BrowserOpen ''http://localhost:8080''] \<and>
      take 11 (main_trace env) =
        banner @ [Chdir (script_dir env), ThreadStart, Bind TCPServer '''' 8080]) \<and>
   (reaches_server env \<and> bind_raises env 0 = None \<longrightarrow>
      take 12 (main_trace env) =
        banner @ [Chdir (script_dir env), ThreadStart, Bind TCPServer '''' 8080,
                  ServeForever TCPServer (serve_requests env 0)]) \<and>
   (\<not> reaches_server env \<longrightarrow> filter is_serve (main_trace env) = []) \<and>
   filter is_serve (take 10 (main_trace env)) = [] \<and>
   filter is_serve (background_trace env) = [] \<and>
   prefix (List.map_filter step_of (main_trace env))
     [ChangeDir, SpawnBrowser, RunServer, RunServer] \<and>
   List.map_filter step_of (background_trace env) = [] \<and>
   (reaches_server env \<and> bind_raises env 0 = None \<longrightarrow>
      prefix [ChangeDir, SpawnBrowser, RunServer] (List.map_filter step_of (main_trace env)))"
proof -
  have target: "fst (open_browser env 8080) = [Sleep 1, BrowserOpen ''http://localhost:8080'']"
    by (simp add: open_browser_def str_8080)
  have "take 9 (main_trace env) = banner @ [Chdir (script_dir env)] \<and>
    (chdir_raises env (script_dir env) = None \<longrightarrow>
      take 10 (main_trace env) = banner @ [Chdir (script_dir env), ThreadStart]) \<and>
    (reaches_server env \<longrightarrow>
      main env (initial env) =
        start_server env 8080
          \<lparr>cwd = script_dir env, listening = [], daemons = [open_browser env 8080],
           trace = banner @ [Chdir (script_dir env), ThreadStart]\<rparr> \<and>
      cwd (final (launch env)) = script_dir env \<and>
      daemons (final (launch env)) = [open_browser env 8080] \<and>
      take 11 (main_trace env) =
        banner @ [Chdir (script_dir env), ThreadStart, Bind TCPServer '''' 8080]) \<and>
    (reaches_server env \<and> bind_raises env 0 = None \<longrightarrow>
      take 12 (main_trace env) =
        banner @ [Chdir (script_dir env), ThreadStart, Bind TCPServer '''' 8080,
                  ServeForever TCPServer (serve_requests env 0)]) \<and>
    (\<not> reaches_server env \<longrightarrow> filter is_serve (main_trace env) = []) \<and>
    filter is_serve (take 10 (main_trace env)) = [] \<and>
    prefix (List.map_filter step_of (main_trace env))
      [ChangeDir, SpawnBrowser, RunServer, RunServer] \<and>
    (reaches_server env \<and> bind_raises env 0 = None \<longrightarrow>
      prefix [ChangeDir, SpawnBrowser, RunServer] (List.map_filter step_of (main_trace env)))"
  proof (cases env rule: launch_cases)
    case (chdir_fails e)
    then show ?thesis
      by (simp add: main_trace_def launch_def main_run reaches_server_def map_filter_append)
  next
    case (thread_fails e)
    then show ?thesis
      by (simp add: main_trace_def launch_def main_run reaches_server_def map_filter_append)
  next
    case serving
    then have m: "main env (initial env) =
        start_server env 8080
          \<lparr>cwd = script_dir env, listening = [], daemons = [open_browser env 8080],
           trace = banner @ [Chdir (script_dir env), ThreadStart]\<rparr>"
      by (rule main_reaches_server)
    from serving show ?thesis
      unfolding main_trace_def launch_def m
      by (simp add: start_server_table reaches_server_def map_filter_append
          split: option.splits completion.splits)
  qed
  with target background_no_serve background_no_step show ?thesis
    by simp
qed

theorem chdir_then_thread_then_serve_witness:
  "take 12 (main_trace linux_host) =
     banner @ [Chdir ''/srv/tool'', ThreadStart, Bind TCPServer '''' 8080,
               ServeForever TCPServer 3] \<and>
   cwd (final (launch linux_host)) = ''/srv/tool'' \<and>
   daemons (final (launch linux_host)) =
     [([Sleep 1, BrowserOpen ''http://localhost:8080''], Returned)]"
proof -
  have r: "reaches_server linux_host \<and> bind_raises linux_host 0 = None"
    by (simp add: reaches_server_def linux_host_fields)
  have b: "snd (open_browser linux_host 8080) = Returned"
    by (simp add: open_browser_def linux_host_def)
  from chdir_then_thread_then_serve [of linux_host] r b show ?thesis
    by (simp add: script_dir_linux_host linux_host_fields prod_eq_iff)
qed

text \<open>
  C7. Every bind of a launch, whatever the platform and the arguments, is on the empty
  host (all interfaces) and port 8080, and so is every socket the process holds at the
  end; the browser thread binds nothing; a launch that gets to the server statement
  binds at least once.
\<close>

theorem binds_all_interfaces_port_8080:
  "list_all (\<lambda>a. a = ('''', 8080)) (List.map_filter bind_addr (main_trace env)) \<and>
   list_all (\<lambda>l. snd l = ('''', 8080)) (listening (final (launch env))) \<and>
   List.map_filter bind_addr (background_trace env) = [] \<and>
   (reaches_server env \<longrightarrow> List.map_filter bind_addr (main_trace env) \<noteq> [])"
proof -
  have "list_all (\<lambda>a. a = ('''', 8080)) (List.map_filter bind_addr (main_trace env)) \<and>
    list_all (\<lambda>l. snd l = ('''', 8080)) (listening (final (launch env))) \<and>
    (reaches_server env \<longrightarrow> List.map_filter bind_addr (main_trace env) \<noteq> [])"
  proof (cases env rule: launch_cases)
    case (chdir_fails e)
    then show ?thesis
      by (simp add: main_trace_def launch_def main_run reaches_server_def map_filter_append)
  next
    case (thread_fails e)
    then show ?thesis
      by (simp add: main_trace_def launch_def main_run reaches_server_def map_filter_append)
  next
    case serving
    then show ?thesis
      by (simp add: main_trace_def launch_def main_run start_server_table reaches_server_def
          map_filter_append split: option.splits completion.splits)
  qed
  with background_no_bind show ?thesis by blast
qed

theorem binds_all_interfaces_port_8080_witness:
  "List.map_filter bind_addr (main_trace linux_host) = [('''', 8080)] \<and>
   listening (final (launch linux_host)) = [(TCPServer, '''', 8080)]"
  using binds_all_interfaces_port_8080 [of linux_host]
  by (simp add: run_simps linux_host_fields map_filter_append)

text \<open>
  C8. A launch calls \<^verbatim>\<open>os.chdir\<close> exactly once, over both threads, with the directory
  of the script as its argument; the call comes right after the banner, before anything
  else; and the working directory at the end of the run is that directory when the call
  succeeded (when it raised, the process terminated there, in the directory it started
  in).
\<close>

theorem chdir_once_to_script_dir:
  "filter is_chdir (main_trace env @ background_trace env) = [Chdir (script_dir env)] \<and>
   take 9 (main_trace env) = banner @ [Chdir (script_dir env)] \<and>
   cwd (final (launch env)) =
     (if chdir_raises env (script_dir env) = None then script_dir env else start_cwd env)"
proof -
  have "filter is_chdir (main_trace env) = [Chdir (script_dir env)] \<and>
    take 9 (main_trace env) = banner @ [Chdir (script_dir env)] \<and>
    cwd (final (launch env)) =
      (if chdir_raises env (script_dir env) = None then script_dir env else start_cwd env)"
  proof (cases env rule: launch_cases)
    case (chdir_fails e)
    then show ?thesis
      by (simp add: main_trace_def launch_def main_run)
  next
    case (thread_fails e)
    then show ?thesis
      by (simp add: main_trace_def launch_def main_run)
  next
    case serving
    then show ?thesis
      by (simp add: main_trace_def launch_def main_run start_server_table
          split: option.splits completion.splits)
  qed
  then show ?thesis
    by (simp add: background_no_chdir)
qed

theorem chdir_once_to_script_dir_witness:
  "filter is_chdir (main_trace linux_host @ background_trace linux_host) = [Chdir ''/srv/tool''] \<and>
   cwd (final (launch linux_host)) = ''/srv/tool''"
  using chdir_once_to_script_dir [of linux_host]
  by (simp add: script_dir_linux_host linux_host_fields)

text \<open>
  C9. Whatever \<^verbatim>\<open>webbrowser.open\<close> does (it opens a browser, returns that it could not,
  or raises), the process ends the same way, the main thread makes the same calls, and
  the sockets held and the working directory are the same: an exception of the call
  ends the browser thread only.
\<close>

theorem browser_failure_not_surfaced:
  "outcome (launch (env\<lparr>browser_result := r\<rparr>)) = outcome (launch env) \<and>
   main_trace (env\<lparr>browser_result := r\<rparr>) = main_trace env \<and>
   background_trace (env\<lparr>browser_result := r\<rparr>) = background_trace env \<and>
   listening (final (launch (env\<lparr>browser_result := r\<rparr>))) = listening (final (launch env)) \<and>
   cwd (final (launch (env\<lparr>browser_result := r\<rparr>))) = cwd (final (launch env)) \<and>
   snd (open_browser (env\<lparr>browser_result := Inl e\<rparr>) 8080) = Raised e"
proof -
  have o: "outcome (launch (env\<lparr>browser_result := r\<rparr>)) = outcome (launch env)"
    by (simp add: launch_def main_browser_result split: prod.splits)
  have t: "main_trace (env\<lparr>browser_result := r\<rparr>) = main_trace env"
    by (simp add: main_trace_def launch_def main_browser_result split: prod.splits)
  have l: "listening (final (launch (env\<lparr>browser_result := r\<rparr>))) =
      listening (final (launch env))"
    by (simp add: launch_def main_browser_result split: prod.splits)
  have c: "cwd (final (launch (env\<lparr>browser_result := r\<rparr>))) = cwd (final (launch env))"
    by (simp add: launch_def main_browser_result split: prod.splits)
  have "reaches_server (env\<lparr>browser_result := r\<rparr>) = reaches_server env"
    by (simp add: reaches_server_def script_dir_def)
  with o have b: "background_trace (env\<lparr>browser_result := r\<rparr>) = background_trace env"
    by (simp add: background_cases)
  have x: "snd (open_browser (env\<lparr>browser_result := Inl e\<rparr>) 8080) = Raised e"
    by (simp add: open_browser_def)
  from o t b l c x show ?thesis by blast
qed

text \<open>
  C10. The arguments of the process are never read: two launches that differ in their
  argument lists only are the same run (banner, binds, URL, loops, outcome).
\<close>

theorem argv_ignored: "launch (env\<lparr>argv := a\<rparr>) = launch env"
  by (simp add: run_simps script_dir_def split: option.splits completion.splits)

end
